theory Spec2Isabelle
  imports Complex_Main "HOL-Library.Word"
begin

section \<open>Strings\<close>

text \<open>
  A JavaScript string is modelled by the bytes of its UTF-8 encoding, so that
  \<open>Buffer.byteLength(s)\<close> is the length of the list. Header names are ASCII.
\<close>

type_synonym byte = "8 word"

definition Buffer_byteLength :: "string \<Rightarrow> nat" where
  "Buffer_byteLength s = length s"

definition toLowerChar :: "char \<Rightarrow> char" where
  "toLowerChar c =
     (case map_of (zip ''ABCDEFGHIJKLMNOPQRSTUVWXYZ'' ''abcdefghijklmnopqrstuvwxyz'') c of
        Some d \<Rightarrow> d
      | None \<Rightarrow> c)"

definition toLowerCase :: "string \<Rightarrow> string" where
  "toLowerCase s = map toLowerChar s"

text \<open>
  The class \<open>\s\<close> of a regular expression: the ASCII white space characters and
  line terminators, and the UTF-8 encodings of U+00A0, U+1680, U+2000 to U+200A,
  U+2028, U+2029, U+202F, U+205F, U+3000 and U+FEFF. \<open>skip_space s\<close> is what is
  left of \<open>s\<close> after the longest match of \<open>\s*\<close> at its start.
\<close>

definition ascii_space :: "char \<Rightarrow> bool" where
  "ascii_space c = (c \<in> set [CHR 0x09, CHR 0x0A, CHR 0x0B, CHR 0x0C, CHR 0x0D, CHR 0x20])"

fun skip_space :: "string \<Rightarrow> string" where
  "skip_space [] = []"
| "skip_space [a] = (if ascii_space a then [] else [a])"
| "skip_space [a, b] =
     (if ascii_space a then skip_space [b]
      else if a = CHR 0xC2 \<and> b = CHR 0xA0 then []
      else [a, b])"
| "skip_space (a # b # c # s) =
     (if ascii_space a then skip_space (b # c # s)
      else if a = CHR 0xC2 \<and> b = CHR 0xA0 then skip_space (c # s)
      else if a = CHR 0xE1 \<and> b = CHR 0x9A \<and> c = CHR 0x80 then skip_space s
      else if a = CHR 0xE2 \<and> b = CHR 0x80 \<and>
              c \<in> set [CHR 0x80, CHR 0x81, CHR 0x82, CHR 0x83, CHR 0x84, CHR 0x85, CHR 0x86,
                        CHR 0x87, CHR 0x88, CHR 0x89, CHR 0x8A, CHR 0xA8, CHR 0xA9, CHR 0xAF]
           then skip_space s
      else if a = CHR 0xE2 \<and> b = CHR 0x81 \<and> c = CHR 0x9F then skip_space s
      else if a = CHR 0xE3 \<and> b = CHR 0x80 \<and> c = CHR 0x80 then skip_space s
      else if a = CHR 0xEF \<and> b = CHR 0xBB \<and> c = CHR 0xBF then skip_space s
      else a # b # c # s)"

text \<open>The test \<open>/^\s*</.test(val)\<close> of the body setter.\<close>

definition starts_with_tag :: "string \<Rightarrow> bool" where
  "starts_with_tag val = (case skip_space val of [] \<Rightarrow> False | c # _ \<Rightarrow> c = CHR ''<'')"

text \<open>
  \<open>s.split(/\s*,\s*/, 1)[0]\<close> for a non-empty \<open>s\<close>: the part of \<open>s\<close> before the
  leftmost match of \<open>\s*,\<close>.
\<close>

fun first_of_list :: "string \<Rightarrow> string" where
  "first_of_list [] = []"
| "first_of_list (c # s) =
     (case skip_space (c # s) of
        [] \<Rightarrow> c # first_of_list s
      | d # _ \<Rightarrow> if d = CHR '','' then [] else c # first_of_list s)"

text \<open>\<open>s.split(";", 1)[0]\<close> for a non-empty \<open>s\<close>.\<close>

definition before_semicolon :: "string \<Rightarrow> string" where
  "before_semicolon s = takeWhile (\<lambda>c. c \<noteq> CHR '';'') s"

text \<open>\<open>String(n)\<close> for an integer \<open>n\<close>.\<close>

fun String_nat :: "nat \<Rightarrow> string" where
  "String_nat n =
     (if n < 10 then [''0123456789'' ! n]
      else String_nat (n div 10) @ [''0123456789'' ! (n mod 10)])"

definition String_int :: "int \<Rightarrow> string" where
  "String_int i = (if i < 0 then CHR ''-'' # String_nat (nat (- i)) else String_nat (nat i))"

text \<open>
  \<open>parseInt(s, 10)\<close>: leading white space is skipped, one sign is read, and the
  longest run of decimal digits that follows is the value; \<open>None\<close> is NaN.
\<close>

definition digit_value :: "char \<Rightarrow> nat option" where
  "digit_value c = map_of (zip ''0123456789'' [0, 1, 2, 3, 4, 5, 6, 7, 8, 9]) c"

definition is_digit :: "char \<Rightarrow> bool" where
  "is_digit c = (digit_value c \<noteq> None)"

definition digits_value :: "string \<Rightarrow> nat" where
  "digits_value ds = foldl (\<lambda>acc c. 10 * acc + (case digit_value c of Some d \<Rightarrow> d | None \<Rightarrow> 0)) 0 ds"

definition parse_digits :: "string \<Rightarrow> nat option" where
  "parse_digits s =
     (let ds = takeWhile is_digit s in if ds = [] then None else Some (digits_value ds))"

definition parseInt :: "string \<Rightarrow> int option" where
  "parseInt s =
     (case skip_space s of
        [] \<Rightarrow> None
      | c # t \<Rightarrow>
          if c = CHR ''-'' then map_option (\<lambda>n. - int n) (parse_digits t)
          else if c = CHR ''+'' then map_option int (parse_digits t)
          else map_option int (parse_digits (c # t)))"

section \<open>Imported tables\<close>

text \<open>
  The tables \<open>statuses.empty\<close> and \<open>statuses.redirect\<close> of the imported package
  statuses: the status codes that forbid a body, and the redirect codes.
\<close>

definition statuses_empty :: "int \<Rightarrow> bool" where
  "statuses_empty code = (code \<in> set [204, 205, 304])"

definition statuses_redirect :: "int \<Rightarrow> bool" where
  "statuses_redirect code = (code \<in> set [300, 301, 302, 303, 305, 307, 308])"

text \<open>
  \<open>mimeTypes.contentType\<close> of the imported package mime-types, on the type hints that
  the response passes to it itself; \<open>None\<close> is its answer \<open>false\<close>. Every other
  hint is left unknown here and reads as \<open>false\<close>.
\<close>

definition contentType :: "string \<Rightarrow> string option" where
  "contentType hint =
     map_of
       [(''html'', ''text/html; charset=utf-8''),
        (''text'', ''text/plain; charset=utf-8''),
        (''bin'', ''application/octet-stream''),
        (''json'', ''application/json; charset=utf-8''),
        (''text/html; charset=utf-8'', ''text/html; charset=utf-8''),
        (''text/plain; charset=utf-8'', ''text/plain; charset=utf-8'')] hint"

text \<open>
  \<open>getType\<close> of common.ts looks the hint up in a cache and asks \<open>contentType\<close> when
  the cache has nothing; \<open>contentType\<close> is a function of the hint alone, so the
  cache does not change the answer.
\<close>

definition getType :: "string \<Rightarrow> string option" where
  "getType hint = contentType hint"

section \<open>Values\<close>

text \<open>
  A value of type number: a finite one is a rational, since every finite double is.
\<close>

datatype number = Finite rat | NaN | PosInfinity | NegInfinity

fun Number_isInteger :: "number \<Rightarrow> bool" where
  "Number_isInteger (Finite q) = (of_int \<lfloor>q\<rfloor> = q)"
| "Number_isInteger NaN = False"
| "Number_isInteger PosInfinity = False"
| "Number_isInteger NegInfinity = False"

text \<open>\<open>code >= 100 && code <= 999\<close>\<close>

fun in_status_range :: "number \<Rightarrow> bool" where
  "in_status_range (Finite q) = (100 \<le> q \<and> q \<le> 999)"
| "in_status_range NaN = False"
| "in_status_range PosInfinity = False"
| "in_status_range NegInfinity = False"

text \<open>The integer that a number for which \<open>Number.isInteger\<close> holds stands for.\<close>

fun integer_of :: "number \<Rightarrow> int" where
  "integer_of (Finite q) = \<lfloor>q\<rfloor>"
| "integer_of NaN = 0"
| "integer_of PosInfinity = 0"
| "integer_of NegInfinity = 0"

text \<open>
  What can be assigned to \<open>body\<close>. A stream and any other object are known by
  their identity.
\<close>

datatype body_value =
    Undefined
  | Null
  | Boolean bool
  | Number number
  | Str string
  | Buffer "byte list"
  | Stream nat
  | Object nat

text \<open>\<open>val == null\<close>\<close>

fun nullish :: "body_value \<Rightarrow> bool" where
  "nullish Undefined = True"
| "nullish Null = True"
| "nullish _ = False"

text \<open>The truth value of a value, as \<open>&&\<close> and \<open>!\<close> read it.\<close>

fun truthy :: "body_value \<Rightarrow> bool" where
  "truthy Undefined = False"
| "truthy Null = False"
| "truthy (Boolean b) = b"
| "truthy (Number (Finite q)) = (q \<noteq> 0)"
| "truthy (Number NaN) = False"
| "truthy (Number PosInfinity) = True"
| "truthy (Number NegInfinity) = True"
| "truthy (Str s) = (s \<noteq> [])"
| "truthy (Buffer b) = True"
| "truthy (Stream i) = True"
| "truthy (Object i) = True"

datatype error = AssertionError string | TypeError string | ReferenceError string

section \<open>The inbound message\<close>

record socket =
  encrypted :: bool

record incoming =
  req_headers :: "string \<rightharpoonup> string"
  httpVersionMajor :: nat
  req_socket :: "socket option"

section \<open>The response\<close>

text \<open>
  A header of the outbound message holds one string or an array of strings; the
  transport keeps it under the lower-cased name. The checks that the transport
  itself makes on the characters of a name and of a value are not part of the model.
\<close>

datatype header_value = Single string | Multiple "string list"

text \<open>
  \<open>res.statusMessage\<close>: not written yet, the entry \<open>statuses[code]\<close> of the imported
  message table, or a string assigned through \<open>message\<close>.
\<close>

datatype status_message = Unwritten | Statuses_entry int | Literal string

record response =
  headersSent :: bool
  statusCode :: int
  statusMessage :: status_message
  res_headers :: "string \<rightharpoonup> header_value"
  req :: incoming
  explicitStatus :: bool
  explicitNullBody :: bool
  body :: body_value
  finish_hooks :: "nat list"
  error_listeners :: "nat list"

text \<open>
  \<open>finish_hooks\<close> lists the streams that \<open>onFinish(this.res, destroy.bind(null, val))\<close>
  has registered for destruction, \<open>error_listeners\<close> the streams that carry the
  listener of \<open>val.once("error", ...)\<close>.
\<close>

datatype outcome = Done response | Raised error response

text \<open>
  \<open>Raised e r\<close>: the call threw \<open>e\<close> and left the response as \<open>r\<close>. The two
  observers read what was thrown and the response after the call.
\<close>

fun thrown :: "outcome \<Rightarrow> error option" where
  "thrown (Done r) = None"
| "thrown (Raised e r) = Some e"

fun state_of :: "outcome \<Rightarrow> response" where
  "state_of (Done r) = r"
| "state_of (Raised e r) = r"

subsection \<open>The header store\<close>

definition get :: "response \<Rightarrow> string \<Rightarrow> header_value option" where
  "get r field = res_headers r (toLowerCase field)"

definition has :: "response \<Rightarrow> string \<Rightarrow> bool" where
  "has r field = (res_headers r (toLowerCase field) \<noteq> None)"

text \<open>The second argument of \<open>set\<close>: a string, a number, or an array of them.\<close>

datatype header_item = Text string | Numeric int

datatype header_arg = One header_item | Many "header_item list"

fun String_item :: "header_item \<Rightarrow> string" where
  "String_item (Text s) = s"
| "String_item (Numeric n) = String_int n"

fun coerce :: "header_arg \<Rightarrow> header_value" where
  "coerce (One v) = Single (String_item v)"
| "coerce (Many vs) = Multiple (map String_item vs)"

definition set_header :: "response \<Rightarrow> string \<Rightarrow> header_arg \<Rightarrow> response" where
  "set_header r field val =
     (if headersSent r then r
      else r\<lparr>res_headers := (res_headers r)(toLowerCase field \<mapsto> coerce val)\<rparr>)"

text \<open>\<open>set\<close> with one argument, an object of header fields, taken in the order of its keys.\<close>

fun set_fields_loop :: "response \<Rightarrow> (string \<times> header_arg) list \<Rightarrow> response" where
  "set_fields_loop r [] = r"
| "set_fields_loop r ((key, val) # rest) = set_fields_loop (set_header r key val) rest"

definition set_fields :: "response \<Rightarrow> (string \<times> header_arg) list \<Rightarrow> response" where
  "set_fields r obj = (if headersSent r then r else set_fields_loop r obj)"

definition remove :: "response \<Rightarrow> string \<Rightarrow> response" where
  "remove r field =
     (if headersSent r then r
      else r\<lparr>res_headers := (res_headers r)(toLowerCase field := None)\<rparr>)"

text \<open>
  \<open>vary\<close>: the imported function \<open>vary\<close> works on the headers of the transport
  and may throw; it is a parameter.
\<close>

definition vary ::
  "((string \<rightharpoonup> header_value) \<Rightarrow> string \<Rightarrow> error + (string \<rightharpoonup> header_value))
    \<Rightarrow> response \<Rightarrow> string \<Rightarrow> outcome" where
  "vary vary_pkg r field =
     (if headersSent r then Done r
      else case vary_pkg (res_headers r) field of
             Inl e \<Rightarrow> Raised e r
           | Inr h \<Rightarrow> Done (r\<lparr>res_headers := h\<rparr>))"

subsection \<open>Type and length\<close>

text \<open>
  The getter \<open>type\<close>. An array has no method \<open>split\<close>: the read throws a TypeError.
\<close>

definition get_type :: "response \<Rightarrow> error + string" where
  "get_type r =
     (case get r ''Content-Type'' of
        None \<Rightarrow> Inr []
      | Some (Single t) \<Rightarrow> if t = [] then Inr [] else Inr (before_semicolon t)
      | Some (Multiple ts) \<Rightarrow> Inl (TypeError ''type.split is not a function''))"

definition set_type :: "response \<Rightarrow> string \<Rightarrow> response" where
  "set_type r hint =
     (case getType hint of
        Some t \<Rightarrow> set_header r ''Content-Type'' (One (Text t))
      | None \<Rightarrow> remove r ''Content-Type'')"

definition set_length :: "response \<Rightarrow> int \<Rightarrow> response" where
  "set_length r n =
     (if \<not> has r ''Transfer-Encoding'' then set_header r ''Content-Length'' (One (Numeric n))
      else r)"

subsection \<open>Status and body\<close>

text \<open>The end of the branch "no content" of the body setter.\<close>

definition no_content :: "response \<Rightarrow> body_value \<Rightarrow> response" where
  "no_content r val =
     (let r1 = (if val = Null then r\<lparr>explicitNullBody := True\<rparr> else r);
          r2 = remove r1 ''Content-Type'';
          r3 = remove r2 ''Content-Length''
      in remove r3 ''Transfer-Encoding'')"

text \<open>
  The body setter after "set the status", for a value that is not null:
  \<open>original\<close> is the body before the assignment.
\<close>

definition with_content :: "body_value \<Rightarrow> response \<Rightarrow> body_value \<Rightarrow> response" where
  "with_content original r val =
     (let setType = \<not> has r ''Content-Type'' in
      case val of
        Str s \<Rightarrow>
          (let r1 = (if setType then set_type r (if starts_with_tag s then ''html'' else ''text'')
                     else r)
           in set_length r1 (int (Buffer_byteLength s)))
      | Buffer b \<Rightarrow>
          (let r1 = (if setType then set_type r ''bin'' else r)
           in set_length r1 (int (length b)))
      | Stream i \<Rightarrow>
          (let r1 = r\<lparr>finish_hooks := finish_hooks r @ [i]\<rparr>;
               r2 = (if original \<noteq> val
                     then (let r' = r1\<lparr>error_listeners := error_listeners r1 @ [i]\<rparr>
                           in if \<not> nullish original then remove r' ''Content-Length'' else r')
                     else r1)
           in if setType then set_type r2 ''bin'' else r2)
      | _ \<Rightarrow> set_type (remove r ''Content-Length'') ''json'')"

text \<open>What the status setter writes once the code has passed its two assertions.\<close>

definition write_status :: "response \<Rightarrow> int \<Rightarrow> response" where
  "write_status r code =
     (let r1 = r\<lparr>explicitStatus := True, statusCode := code\<rparr>
      in if httpVersionMajor (req r1) < 2 then r1\<lparr>statusMessage := Statuses_entry code\<rparr>
         else r1)"

text \<open>
  The two setters call each other: the status setter clears the body for a status
  that forbids one, the body setter sets the status to 204 or to 200.
\<close>

function set_status :: "response \<Rightarrow> number \<Rightarrow> outcome"
  and set_body :: "response \<Rightarrow> body_value \<Rightarrow> outcome" where
  "set_status r code =
     (if headersSent r then Done r
      else if \<not> Number_isInteger code
        then Raised (AssertionError ''status code must be a number'') r
      else if \<not> in_status_range code
        then Raised (AssertionError ''invalid status code'') r
      else
        (let r1 = write_status r (integer_of code)
         in if truthy (body r1) \<and> statuses_empty (integer_of code)
            then set_body r1 Null
            else Done r1))"
| "set_body r val =
     (let original = body r;
          r1 = r\<lparr>body := val\<rparr>
      in if nullish val then
           (if \<not> statuses_empty (statusCode r1) then
              (case get_type r1 of
                 Inl e \<Rightarrow> Raised e r1
               | Inr t \<Rightarrow>
                   if t = ''application/json'' then Done (r1\<lparr>body := Str ''null''\<rparr>)
                   else (case set_status r1 (Finite 204) of
                           Raised e r' \<Rightarrow> Raised e r'
                         | Done r2 \<Rightarrow> Done (no_content r2 val)))
            else Done (no_content r1 val))
         else
           (case (if \<not> explicitStatus r1 then set_status r1 (Finite 200) else Done r1) of
              Raised e r' \<Rightarrow> Raised e r'
            | Done r2 \<Rightarrow> Done (with_content original r2 val)))"
  by pat_completeness auto
termination
  by (relation "measure (\<lambda>x. case x of
          Inl (r, code) \<Rightarrow> (if truthy (body r) \<and> statuses_empty (integer_of code) then 2 else 0)
        | Inr (r, val) \<Rightarrow> (if nullish val \<and> statuses_empty (statusCode r) then 0 else 1))")
     (auto simp: statuses_empty_def write_status_def Let_def split: if_splits elim: nullish.elims)

subsection \<open>The getter of length\<close>

text \<open>\<open>String(v)\<close> for a header: an array is joined with commas.\<close>

fun join_comma :: "string list \<Rightarrow> string" where
  "join_comma [] = []"
| "join_comma [x] = x"
| "join_comma (x # y # xs) = x @ '','' @ join_comma (y # xs)"

fun String_header :: "header_value \<Rightarrow> string" where
  "String_header (Single s) = s"
| "String_header (Multiple xs) = join_comma xs"

text \<open>
  \<open>None\<close> is \<open>undefined\<close>. The built-in \<open>JSON.stringify\<close> is a parameter.
\<close>

definition get_length :: "(body_value \<Rightarrow> string) \<Rightarrow> response \<Rightarrow> int option" where
  "get_length JSON_stringify r =
     (if has r ''Content-Length'' then
        (case get r ''Content-Length'' of
           None \<Rightarrow> Some 0
         | Some v \<Rightarrow> (case parseInt (String_header v) of None \<Rightarrow> Some 0 | Some n \<Rightarrow> Some n))
      else if \<not> truthy (body r) then None
      else
        (case body r of
           Stream i \<Rightarrow> None
         | Str s \<Rightarrow> Some (int (Buffer_byteLength s))
         | Buffer b \<Rightarrow> Some (int (length b))
         | v \<Rightarrow> Some (int (Buffer_byteLength (JSON_stringify v)))))"

subsection \<open>Redirect\<close>

text \<open>\<open>a || b\<close> for a string \<open>a\<close> that may be undefined.\<close>

fun or_string :: "string option \<Rightarrow> string \<Rightarrow> string" where
  "or_string None b = b"
| "or_string (Some a) b = (if a = [] then b else a)"

text \<open>The method \<open>get\<close> of the Request, which reads the inbound message only.\<close>

definition request_get :: "incoming \<Rightarrow> string \<Rightarrow> string" where
  "request_get m field =
     (let f = toLowerCase field
      in if f = ''referer'' \<or> f = ''referrer''
         then or_string (req_headers m ''referrer'') (or_string (req_headers m ''referer'') [])
         else or_string (req_headers m f) [])"

text \<open>
  Modelled from the spec: the Context, whose file is not among the sources. Its \<open>get\<close>
  and \<open>accepts\<close> are the delegated shorthand accessors of the Request of the same
  cycle, so \<open>this.ctx.get(field)\<close> is \<open>request_get\<close> on the inbound message that the
  response refers to, and \<open>this.ctx.accepts("html")\<close> is the answer of the content
  negotiator for that message.
\<close>

definition ctx_get :: "response \<Rightarrow> string \<Rightarrow> string" where
  "ctx_get r field = request_get (req r) field"

text \<open>
  The file of the response imports \<open>assert\<close>, \<open>http\<close>, \<open>path\<close>, \<open>statuses\<close>, \<open>stream\<close>,
  \<open>vary\<close>, \<open>content-disposition\<close>, \<open>type-is\<close>, \<open>destroy\<close>, \<open>on-finished\<close> and
  \<open>./common\<close>, and declares nothing but the class: the name \<open>encodeUrl\<close> is bound
  nowhere, and evaluating the call \<open>encodeUrl(url)\<close> throws a ReferenceError.
\<close>

definition encodeUrl :: "string \<Rightarrow> error + string" where
  "encodeUrl url = Inl (ReferenceError ''encodeUrl is not defined'')"

text \<open>
  \<open>redirect\<close>. The argument of \<open>this.set("Location", encodeUrl(url))\<close> is evaluated
  before \<open>set\<close> is entered. The name \<open>escape\<close> is not imported either and is the
  built-in global function of that name; it is a parameter, as is the content
  negotiator of the imported package accepts, of which only the truth value of the
  answer is read.
\<close>

definition redirect ::
  "(string \<Rightarrow> string) \<Rightarrow> (incoming \<Rightarrow> string \<Rightarrow> bool)
    \<Rightarrow> response \<Rightarrow> string \<Rightarrow> string option \<Rightarrow> outcome" where
  "redirect escape accepts r url alt =
     (let url1 = (if url = ''back''
                  then or_string (Some (ctx_get r ''Referrer'')) (or_string alt ''/'')
                  else url)
      in case encodeUrl url1 of
           Inl e \<Rightarrow> Raised e r
         | Inr location \<Rightarrow>
             (let r1 = set_header r ''Location'' (One (Text location))
              in case (if \<not> statuses_redirect (statusCode r1) then set_status r1 (Finite 302)
                       else Done r1) of
                   Raised e r' \<Rightarrow> Raised e r'
                 | Done r2 \<Rightarrow>
                     if accepts (req r2) ''html'' then
                       (let url2 = escape url1;
                            r3 = set_type r2 ''text/html; charset=utf-8''
                        in set_body r3
                             (Str (''Redirecting to <a href='' @ [CHR 0x22] @ url2 @ [CHR 0x22]
                                   @ ''>'' @ url2 @ ''</a>.'')))
                     else
                       (let r3 = set_type r2 ''text/plain; charset=utf-8''
                        in set_body r3 (Str (''Redirecting to '' @ url1 @ ''.'')))))"

section \<open>The request\<close>

record application =
  proxy :: bool

text \<open>
  What \<open>memoizedURL\<close> holds once it is written: the object that \<open>new URL\<close> has
  returned, of a type \<open>'u\<close>, or the empty object of \<open>Object.create(null)\<close>.
\<close>

datatype 'u url_object = Parsed 'u | Empty_object

record 'u request =
  message :: incoming
  app :: application
  originalUrl :: string
  memoizedURL :: "'u url_object option"

text \<open>Reading \<open>encrypted\<close> of a socket that is not there throws.\<close>

definition protocol :: "'u request \<Rightarrow> error + string" where
  "protocol rq =
     (case req_socket (message rq) of
        None \<Rightarrow> Inl (TypeError ''cannot read encrypted'')
      | Some s \<Rightarrow>
          if encrypted s then Inr ''https''
          else if \<not> proxy (app rq) then Inr ''http''
          else (let proto = request_get (message rq) ''X-Forwarded-Proto''
                in Inr (if proto \<noteq> [] then first_of_list proto else ''http'')))"

definition host :: "'u request \<Rightarrow> string" where
  "host rq =
     (let h1 = (if proxy (app rq) then request_get (message rq) ''X-Forwarded-Host'' else []);
          h2 = (if h1 = [] \<and> 2 \<le> httpVersionMajor (message rq)
                then request_get (message rq) '':authority'' else h1);
          h3 = (if h2 = [] then request_get (message rq) ''Host'' else h2)
      in if h3 = [] then [] else first_of_list h3)"

definition origin :: "'u request \<Rightarrow> error + string" where
  "origin rq =
     (case protocol rq of
        Inl e \<Rightarrow> Inl e
      | Inr p \<Rightarrow> Inr (p @ ''://'' @ host rq))"

text \<open>
  The getter \<open>URL\<close>. The built-in constructor \<open>new URL\<close> is a parameter; \<open>None\<close> is
  its TypeError for a string that is no URL. Everything that can throw is inside
  the \<open>try\<close>, whose handler stores the empty object.
\<close>

definition try_catch :: "error + 'a \<Rightarrow> (error \<Rightarrow> 'a) \<Rightarrow> 'a" where
  "try_catch block handler = (case block of Inl e \<Rightarrow> handler e | Inr v \<Rightarrow> v)"

definition get_URL ::
  "(string \<Rightarrow> 'u option) \<Rightarrow> 'u request \<Rightarrow> error + ('u url_object \<times> 'u request)" where
  "get_URL new_URL rq =
     (case memoizedURL rq of
        Some u \<Rightarrow> Inr (u, rq)
      | None \<Rightarrow>
          (let url = or_string (Some (originalUrl rq)) [];
               u = try_catch
                     (case origin rq of
                        Inl e \<Rightarrow> Inl e
                      | Inr base \<Rightarrow>
                          (case new_URL (base @ url) of
                             None \<Rightarrow> Inl (TypeError ''Invalid URL'')
                           | Some parsed \<Rightarrow> Inr (Parsed parsed)))
                     (\<lambda>err. Empty_object)
           in Inr (u, rq\<lparr>memoizedURL := Some u\<rparr>)))"

section \<open>Examples\<close>

text \<open>
  A response as the transport hands it over, the same after \<open>body = "hi"\<close>, after
  \<open>body = ""\<close>, after the body was set to an object and after
  \<open>set("Content-Type", "application/xml")\<close>, responses whose head has
  been sent, and responses with a Transfer-Encoding header, the second with a
  Content-Length header as well.
\<close>

definition inbound :: incoming where
  "inbound = \<lparr>req_headers = Map.empty, httpVersionMajor = 1,
               req_socket = Some \<lparr>encrypted = False\<rparr>\<rparr>"

definition blank :: response where
  "blank = \<lparr>headersSent = False, statusCode = 200, statusMessage = Unwritten,
             res_headers = Map.empty, req = inbound, explicitStatus = False,
             explicitNullBody = False, body = Undefined, finish_hooks = [],
             error_listeners = []\<rparr>"

definition text_response :: response where
  "text_response =
     blank\<lparr>explicitStatus := True,
           res_headers := [''content-type'' \<mapsto> Single ''text/plain; charset=utf-8'',
                           ''content-length'' \<mapsto> Single ''2''],
           body := Str ''hi''\<rparr>"

definition empty_text_response :: response where
  "empty_text_response =
     blank\<lparr>explicitStatus := True,
           res_headers := [''content-type'' \<mapsto> Single ''text/plain; charset=utf-8'',
                           ''content-length'' \<mapsto> Single ''0''],
           body := Str []\<rparr>"

definition json_response :: response where
  "json_response =
     blank\<lparr>explicitStatus := True,
           res_headers := [''content-type'' \<mapsto> Single ''application/json; charset=utf-8''],
           body := Object 0\<rparr>"

definition xml_response :: response where
  "xml_response = blank\<lparr>res_headers := [''content-type'' \<mapsto> Single ''application/xml'']\<rparr>"

definition sent_response :: response where
  "sent_response = text_response\<lparr>headersSent := True\<rparr>"


definition sent_blank :: response where
  "sent_blank = blank\<lparr>headersSent := True\<rparr>"

definition chunked_response :: response where
  "chunked_response =
     blank\<lparr>res_headers := [''transfer-encoding'' \<mapsto> Single ''chunked'']\<rparr>"

definition chunked_stale_response :: response where
  "chunked_stale_response =
     blank\<lparr>res_headers := [''transfer-encoding'' \<mapsto> Single ''chunked'',
                           ''content-length'' \<mapsto> Single ''5'']\<rparr>"

text \<open>
  A response after \<open>set("Content-Type", ["text/plain", "text/html"])\<close>; three requests,
  one without a Host header and one without a socket, and a constructor that refuses
  the URL without a host.
\<close>

definition array_response :: response where
  "array_response =
     blank\<lparr>res_headers := [''content-type'' \<mapsto> Multiple [''text/plain'', ''text/html'']]\<rparr>"

definition plain_request :: "string request" where
  "plain_request =
     \<lparr>message = inbound\<lparr>req_headers := [''host'' \<mapsto> ''example.com'']\<rparr>,
      app = \<lparr>proxy = False\<rparr>, originalUrl = ''/a'', memoizedURL = None\<rparr>"

definition hostless_request :: "string request" where
  "hostless_request =
     \<lparr>message = inbound, app = \<lparr>proxy = False\<rparr>, originalUrl = ''/a'', memoizedURL = None\<rparr>"

definition only_with_host :: "string \<Rightarrow> string option" where
  "only_with_host s = (if s = ''http:///a'' then None else Some s)"

definition socketless_request :: "string request" where
  "socketless_request =
     \<lparr>message = inbound\<lparr>req_socket := None\<rparr>,
      app = \<lparr>proxy = False\<rparr>, originalUrl = ''/a'', memoizedURL = None\<rparr>"

section \<open>Properties\<close>

subsection \<open>Auxiliary facts\<close>

text \<open>
  The setters are unfolded by hand below, one call at a time: what each of them
  returns on a sent response, for an accepted and for a rejected code, and for a body
  that is or is not null; then the effect of the body setter on each header, the
  and the inverse of \<open>String\<close> that \<open>parseInt\<close> is on the naturals.
\<close>

lemmas examples = inbound_def blank_def text_response_def empty_text_response_def
  json_response_def sent_response_def sent_blank_def chunked_response_def
  chunked_stale_response_def array_response_def
  plain_request_def hostless_request_def only_with_host_def socketless_request_def xml_response_def

declare set_status.simps [simp del] set_body.simps [simp del]

lemma lower_names [simp]:
  "toLowerCase ''Content-Type'' = ''content-type''"
  "toLowerCase ''Content-Length'' = ''content-length''"
  "toLowerCase ''Transfer-Encoding'' = ''transfer-encoding''"
  "toLowerCase ''Location'' = ''location''"
  "toLowerCase ''Referrer'' = ''referrer''"
  by (simp_all add: toLowerCase_def toLowerChar_def)

lemma set_status_sent: "headersSent r \<Longrightarrow> set_status r code = Done r"
  by (simp add: set_status.simps)

lemma no_content_fields [simp]:
  "statusCode (no_content r val) = statusCode r"
  "body (no_content r val) = body r"
  "headersSent (no_content r val) = headersSent r"
  by (simp_all add: no_content_def remove_def Let_def)

lemma no_content_headers:
  assumes "\<not> headersSent r"
  shows "get (no_content r val) ''Content-Type'' = None"
    and "get (no_content r val) ''Content-Length'' = None"
    and "get (no_content r val) ''Transfer-Encoding'' = None"
  using assms by (simp_all add: no_content_def remove_def get_def Let_def)

lemma write_status_fields [simp]:
  "statusCode (write_status r c) = c"
  "body (write_status r c) = body r"
  "headersSent (write_status r c) = headersSent r"
  "res_headers (write_status r c) = res_headers r"
  "explicitStatus (write_status r c) = True"
  "req (write_status r c) = req r"
  by (simp_all add: write_status_def Let_def)

lemma set_body_nullish_empty:
  "nullish val \<Longrightarrow> statuses_empty (statusCode r) \<Longrightarrow>
   set_body r val = Done (no_content (r\<lparr>body := val\<rparr>) val)"
  by (simp add: set_body.simps Let_def)


lemma get_type_body [simp]: "get_type (r\<lparr>body := v\<rparr>) = get_type r"
  by (simp add: get_type_def get_def)

lemma integer_status:
  "(Number_isInteger c \<and> in_status_range c) = (\<exists>i. c = Finite (of_int i) \<and> 100 \<le> i \<and> i \<le> 999)"
proof (cases c)
  case (Finite q)
  show ?thesis
  proof
    assume a: "Number_isInteger c \<and> in_status_range c"
    with Finite have q: "of_int \<lfloor>q\<rfloor> = q" and "100 \<le> q" and "q \<le> 999" by simp_all
    then have "100 \<le> \<lfloor>q\<rfloor>" and "\<lfloor>q\<rfloor> \<le> 999" by linarith+
    with q Finite show "\<exists>i. c = Finite (of_int i) \<and> 100 \<le> i \<and> i \<le> 999" by metis
  next
    assume "\<exists>i. c = Finite (of_int i) \<and> 100 \<le> i \<and> i \<le> 999"
    then show "Number_isInteger c \<and> in_status_range c" by auto
  qed
qed simp_all

lemma set_status_accepted:
  assumes "\<not> headersSent r" and "100 \<le> i" and "i \<le> 999"
  shows "set_status r (Finite (of_int i)) =
           Done (if truthy (body r) \<and> statuses_empty i
                 then no_content ((write_status r i)\<lparr>body := Null\<rparr>) Null
                 else write_status r i)"
  using assms by (simp add: set_status.simps Let_def set_body_nullish_empty)

lemma set_status_rejected:
  assumes "\<not> headersSent r" and "\<not> (Number_isInteger c \<and> in_status_range c)"
  shows "\<exists>msg. set_status r c = Raised (AssertionError msg) r"
  using assms by (auto simp add: set_status.simps)

lemma empty_code_cases:
  assumes "Number_isInteger code" and "statuses_empty (integer_of code)"
  shows "code = Finite (of_int (integer_of code)) \<and> 100 \<le> integer_of code \<and> integer_of code \<le> 999"
  using assms by (cases code) (auto simp: statuses_empty_def)

lemma set_status_200:
  "set_status r (Finite 200) = Done (if headersSent r then r else write_status r 200)"
  by (simp add: set_status.simps statuses_empty_def Let_def)

lemma set_body_content:
  "\<not> nullish val \<Longrightarrow>
   set_body r val =
     Done (with_content (body r)
            (if \<not> explicitStatus r \<and> \<not> headersSent r then write_status (r\<lparr>body := val\<rparr>) 200
             else r\<lparr>body := val\<rparr>) val)"
  by (simp add: set_body.simps [of r val] set_status_200 Let_def)

lemmas header_ops = get_def has_def set_header_def remove_def set_type_def set_length_def
  getType_def contentType_def

lemma with_content_keeps_type:
  assumes "val = Str s \<or> val = Buffer b \<or> val = Stream i" and "has r ''Content-Type''"
  shows "get (with_content original r val) ''Content-Type'' = get r ''Content-Type''"
  using assms by (auto simp add: with_content_def header_ops Let_def)

lemma with_content_fallback:
  assumes "val = Str s \<or> val = Buffer b \<or> val = Stream i"
    and "\<not> has r ''Content-Type''" and "\<not> headersSent r"
  shows "get (with_content original r val) ''Content-Type'' =
           Some (Single (case val of
                           Str s \<Rightarrow> if starts_with_tag s then ''text/html; charset=utf-8''
                                    else ''text/plain; charset=utf-8''
                         | _ \<Rightarrow> ''application/octet-stream''))"
  using assms by (auto simp add: with_content_def header_ops Let_def)

lemma with_content_json:
  assumes "val = Object k \<or> val = Boolean bb \<or> val = Number n" and "\<not> headersSent r"
  shows "get (with_content original r val) ''Content-Type'' =
           Some (Single ''application/json; charset=utf-8'')"
  using assms by (auto simp add: with_content_def header_ops Let_def)

lemma with_content_length_kept:
  assumes "val = Str s \<or> val = Buffer b" and "has r ''Transfer-Encoding''"
  shows "get (with_content original r val) ''Content-Length'' = get r ''Content-Length''"
  using assms by (auto simp add: with_content_def header_ops Let_def)

lemma digit_char:
  assumes "d < 10"
  shows "digit_value (''0123456789'' ! d) = Some d"
proof -
  from assms have "d \<in> {0, 1, 2, 3, 4, 5, 6, 7, 8, 9}" by auto
  then show ?thesis by (auto simp add: digit_value_def)
qed

lemma is_digit_cases:
  "is_digit c = (c \<in> set ''0123456789'')"
  by (auto simp add: is_digit_def digit_value_def split: if_splits)

lemma String_nat_unfold:
  "String_nat n = (if n < 10 then [''0123456789'' ! n]
                   else String_nat (n div 10) @ [''0123456789'' ! (n mod 10)])"
  by (rule String_nat.simps)

declare String_nat.simps [simp del]

lemma String_nat_digits: "list_all is_digit (String_nat n) \<and> String_nat n \<noteq> []"
proof (induction n rule: String_nat.induct)
  case (1 n)
  show ?case
  proof (cases "n < 10")
    case True
    then show ?thesis
      by (subst String_nat_unfold, subst (2) String_nat_unfold)
         (simp add: is_digit_def digit_char)
  next
    case False
    have "n mod 10 < 10" by simp
    then have "is_digit (''0123456789'' ! (n mod 10))"
      by (simp only: is_digit_def digit_char) simp
    with False 1 show ?thesis
      by (subst String_nat_unfold, subst (2) String_nat_unfold) simp
  qed
qed

lemma digits_value_snoc:
  "digits_value (ds @ [c]) = 10 * digits_value ds + (case digit_value c of Some d \<Rightarrow> d | None \<Rightarrow> 0)"
  by (simp add: digits_value_def)

lemma digits_value_String_nat: "digits_value (String_nat n) = n"
proof (induction n rule: String_nat.induct)
  case (1 n)
  show ?case
  proof (cases "n < 10")
    case True
    then show ?thesis
      by (subst String_nat_unfold) (simp add: digits_value_def digit_char)
  next
    case False
    have "n mod 10 < 10" by simp
    then have d: "digit_value (''0123456789'' ! (n mod 10)) = Some (n mod 10)"
      by (rule digit_char)
    from False 1 have "digits_value (String_nat (n div 10)) = n div 10" by simp
    with False d show ?thesis
      by (subst String_nat_unfold) (simp add: digits_value_snoc)
  qed
qed

lemma skip_space_digit:
  assumes "is_digit c"
  shows "skip_space (c # s) = c # s"
proof -
  from assms have c: "c \<in> set ''0123456789''" by (simp add: is_digit_cases)
  then have a: "\<not> ascii_space c" by (auto simp add: ascii_space_def)
  from c have b: "c \<noteq> CHR 0xC2" "c \<noteq> CHR 0xE1" "c \<noteq> CHR 0xE2" "c \<noteq> CHR 0xE3" "c \<noteq> CHR 0xEF"
    by auto
  show ?thesis
  proof (cases s)
    case Nil
    with a show ?thesis by simp
  next
    case (Cons x xs)
    show ?thesis
    proof (cases xs)
      case Nil
      with Cons a b show ?thesis by simp
    next
      case (Cons y ys)
      with \<open>s = x # xs\<close> a b show ?thesis by simp
    qed
  qed
qed

lemma parse_digits_all:
  assumes "list_all is_digit s" and "s \<noteq> []"
  shows "parse_digits s = Some (digits_value s)"
proof -
  from assms(1) have "takeWhile is_digit s = s"
    by (simp add: list_all_iff)
  with assms(2) show ?thesis by (simp only: parse_digits_def Let_def) simp
qed

lemma parseInt_String_nat: "parseInt (String_nat n) = Some (int n)"
proof -
  from String_nat_digits [of n] obtain c t
    where s: "String_nat n = c # t" and all: "list_all is_digit (c # t)"
    by (cases "String_nat n") auto
  then have c: "is_digit c" by simp
  then have sign: "c \<noteq> CHR ''-''" "c \<noteq> CHR ''+''"
    by (auto simp add: is_digit_cases)
  have "parse_digits (c # t) = Some (digits_value (c # t))"
    using all by (rule parse_digits_all) simp
  then have "parse_digits (c # t) = Some n"
    using s digits_value_String_nat [of n] by simp
  with sign c show ?thesis
    by (simp add: parseInt_def s skip_space_digit)
qed

lemma parseInt_String_int: "parseInt (String_int (int n)) = Some (int n)"
  by (simp add: String_int_def parseInt_String_nat)

lemma pre_content_fields [simp]:
  "res_headers (if c then write_status (r\<lparr>body := val\<rparr>) 200 else r\<lparr>body := val\<rparr>) = res_headers r"
  "headersSent (if c then write_status (r\<lparr>body := val\<rparr>) 200 else r\<lparr>body := val\<rparr>) = headersSent r"
  "body (if c then write_status (r\<lparr>body := val\<rparr>) 200 else r\<lparr>body := val\<rparr>) = val"
  by simp_all

lemma has_cong: "res_headers r' = res_headers r \<Longrightarrow> has r' field = has r field"
  by (simp add: has_def)

lemma get_cong: "res_headers r' = res_headers r \<Longrightarrow> get r' field = get r field"
  by (simp add: get_def)

lemma set_body_not_thrown: "\<not> nullish val \<Longrightarrow> thrown (set_body r val) = None"
  by (simp add: set_body_content)

lemma set_body_keeps_type:
  assumes "val = Str s \<or> val = Buffer b \<or> val = Stream i" and "has r ''Content-Type''"
  shows "get (state_of (set_body r val)) ''Content-Type'' = get r ''Content-Type''"
proof -
  let ?pre = "if \<not> explicitStatus r \<and> \<not> headersSent r then write_status (r\<lparr>body := val\<rparr>) 200
              else r\<lparr>body := val\<rparr>"
  have hdr: "res_headers ?pre = res_headers r" by simp
  from assms(1) have "\<not> nullish val" by auto
  then have sb: "set_body r val = Done (with_content (body r) ?pre val)"
    by (rule set_body_content)
  have "has ?pre ''Content-Type''" using assms(2) has_cong [OF hdr] by simp
  from with_content_keeps_type [OF assms(1) this] get_cong [OF hdr] sb
  show ?thesis by simp
qed

lemma set_body_fallback:
  assumes "val = Str s \<or> val = Buffer b \<or> val = Stream i"
    and "\<not> has r ''Content-Type''" and "\<not> headersSent r"
  shows "get (state_of (set_body r val)) ''Content-Type'' =
           Some (Single (case val of
                           Str s \<Rightarrow> if starts_with_tag s then ''text/html; charset=utf-8''
                                    else ''text/plain; charset=utf-8''
                         | _ \<Rightarrow> ''application/octet-stream''))"
proof -
  let ?pre = "if \<not> explicitStatus r \<and> \<not> headersSent r then write_status (r\<lparr>body := val\<rparr>) 200
              else r\<lparr>body := val\<rparr>"
  have hdr: "res_headers ?pre = res_headers r" and sent: "headersSent ?pre = headersSent r"
    by simp_all
  from assms(1) have "\<not> nullish val" by auto
  then have sb: "set_body r val = Done (with_content (body r) ?pre val)"
    by (rule set_body_content)
  have "\<not> has ?pre ''Content-Type''" and "\<not> headersSent ?pre"
    using assms(2,3) has_cong [OF hdr] sent by simp_all
  from with_content_fallback [OF assms(1) this] sb show ?thesis by simp
qed

lemma set_body_json:
  assumes "val = Object k \<or> val = Boolean bb \<or> val = Number n" and "\<not> headersSent r"
  shows "get (state_of (set_body r val)) ''Content-Type'' =
           Some (Single ''application/json; charset=utf-8'')"
proof -
  let ?pre = "if \<not> explicitStatus r \<and> \<not> headersSent r then write_status (r\<lparr>body := val\<rparr>) 200
              else r\<lparr>body := val\<rparr>"
  have sent: "headersSent ?pre = headersSent r" by simp
  from assms(1) have "\<not> nullish val" by auto
  then have sb: "set_body r val = Done (with_content (body r) ?pre val)"
    by (rule set_body_content)
  have "\<not> headersSent ?pre" using assms(2) sent by simp
  from with_content_json [OF assms(1) this] sb show ?thesis by simp
qed

lemma with_content_string_length:
  assumes "\<not> headersSent r" and "\<not> has r ''Transfer-Encoding''"
  shows "get (with_content original r (Str s)) ''Content-Length'' =
           Some (Single (String_int (int (Buffer_byteLength s))))"
  using assms by (auto simp add: with_content_def header_ops Let_def)

lemma set_body_string_length:
  assumes "\<not> headersSent r" and "\<not> has r ''Transfer-Encoding''"
  shows "get (state_of (set_body r (Str s))) ''Content-Length'' =
           Some (Single (String_int (int (Buffer_byteLength s))))"
proof -
  let ?pre = "if \<not> explicitStatus r \<and> \<not> headersSent r
              then write_status (r\<lparr>body := Str s\<rparr>) 200 else r\<lparr>body := Str s\<rparr>"
  have hdr: "res_headers ?pre = res_headers r" and sent: "\<not> headersSent ?pre"
    using assms(1) by simp_all
  have sb: "set_body r (Str s) = Done (with_content (body r) ?pre (Str s))"
    by (rule set_body_content) simp
  have "\<not> has ?pre ''Transfer-Encoding''" using assms(2) has_cong [OF hdr] by simp
  from with_content_string_length [OF sent this] sb show ?thesis by simp
qed

lemma set_body_length_kept:
  assumes "val = Str s \<or> val = Buffer b" and "has r ''Transfer-Encoding''"
  shows "get (state_of (set_body r val)) ''Content-Length'' = get r ''Content-Length''"
proof -
  let ?pre = "if \<not> explicitStatus r \<and> \<not> headersSent r then write_status (r\<lparr>body := val\<rparr>) 200
              else r\<lparr>body := val\<rparr>"
  have hdr: "res_headers ?pre = res_headers r" by simp
  from assms(1) have "\<not> nullish val" by auto
  then have sb: "set_body r val = Done (with_content (body r) ?pre val)"
    by (rule set_body_content)
  have "has ?pre ''Transfer-Encoding''" using assms(2) has_cong [OF hdr] by simp
  from with_content_length_kept [OF assms(1) this] get_cong [OF hdr] sb
  show ?thesis by simp
qed

lemma with_content_sent:
  assumes "headersSent r"
  shows "res_headers (with_content original r val) = res_headers r"
  using assms by (cases val) (simp_all add: with_content_def header_ops Let_def)

lemma set_body_sent:
  assumes "headersSent r" and "\<not> nullish val"
  shows "res_headers (state_of (set_body r val)) = res_headers r"
  using assms by (simp add: set_body_content with_content_sent)

lemma get_length_header:
  assumes "get r ''Content-Length'' = Some (Single (String_int (int n)))"
  shows "get_length js r = Some (int n)"
  using assms by (simp add: get_length_def has_def get_def parseInt_String_int)

lemma with_content_fields [simp]:
  "statusCode (with_content original r val) = statusCode r"
  "body (with_content original r val) = body r"
  "headersSent (with_content original r val) = headersSent r"
  "req (with_content original r val) = req r"
  by (cases val; simp add: with_content_def header_ops Let_def)+

lemma set_type_fields [simp]:
  "statusCode (set_type r hint) = statusCode r"
  "body (set_type r hint) = body r"
  "headersSent (set_type r hint) = headersSent r"
  "explicitStatus (set_type r hint) = explicitStatus r"
  "req (set_type r hint) = req r"
  by (simp_all add: header_ops split: option.splits)

lemma set_header_fields [simp]:
  "statusCode (set_header r field val) = statusCode r"
  "body (set_header r field val) = body r"
  "headersSent (set_header r field val) = headersSent r"
  "explicitStatus (set_header r field val) = explicitStatus r"
  "req (set_header r field val) = req r"
  by (simp_all add: header_ops)

lemma write_status_headers [simp]:
  "get (write_status r c) field = get r field"
  "has (write_status r c) field = has r field"
  by (simp_all add: get_def has_def)

lemma body_update_headers [simp]:
  "get (r\<lparr>body := v\<rparr>) field = get r field"
  "has (r\<lparr>body := v\<rparr>) field = has r field"
  by (simp_all add: get_def has_def)

lemma starts_with_tag_bracket: "starts_with_tag (CHR ''<'' # s)"
proof (cases s)
  case Nil
  then show ?thesis by (simp add: starts_with_tag_def ascii_space_def)
next
  case (Cons x xs)
  then show ?thesis
    by (cases xs) (simp_all add: starts_with_tag_def ascii_space_def)
qed

lemma skip_space_ascii: "ascii_space c \<Longrightarrow> skip_space (c # s) = skip_space s"
proof (cases s)
  case Nil
  assume "ascii_space c"
  with Nil show ?thesis by simp
next
  case (Cons x xs)
  assume "ascii_space c"
  with Cons show ?thesis by (cases xs) simp_all
qed

lemma starts_with_tag_space: "ascii_space c \<Longrightarrow> starts_with_tag (c # s) = starts_with_tag s"
  by (simp add: starts_with_tag_def skip_space_ascii)

lemma half_not_integer: "\<nexists>j. Finite (401 / 2) = Finite (of_int j) \<and> 100 \<le> j \<and> j \<le> 999"
proof
  assume "\<exists>j. Finite (401 / 2) = Finite (of_int j) \<and> 100 \<le> j \<and> j \<le> 999"
  then obtain j :: int where "(401 / 2 :: rat) = of_int j" by auto
  then have "(of_int (2 * j) :: rat) = of_int 401" by simp
  then have "2 * j = 401" by (simp only: of_int_eq_iff)
  then show False by presburger
qed

subsection \<open>Null body\<close>




subsection \<open>Null body of a JSON response\<close>

text \<open>
  C2. On a response whose status does not forbid a body and whose type is
  \<open>application/json\<close>, the assignment \<open>body = null\<close> (or \<open>undefined\<close>) makes the
  body the string \<open>null\<close> of four characters and changes nothing else, the status
  included.
\<close>

theorem body_null_json:
  assumes "\<not> statuses_empty (statusCode r)" and "get_type r = Inr ''application/json''"
    and "val = Null \<or> val = Undefined"
  shows "set_body r val = Done (r\<lparr>body := Str ''null''\<rparr>) \<and> length ''null'' = 4"
  using assms by (auto simp add: set_body.simps [of r val] Let_def)

theorem body_null_json_witness:
  "\<not> statuses_empty (statusCode json_response)
   \<and> get_type json_response = Inr ''application/json''
   \<and> set_body json_response Null = Done (json_response\<lparr>body := Str ''null''\<rparr>)"
proof -
  have h1: "\<not> statuses_empty (statusCode json_response)"
    and h2: "get_type json_response = Inr ''application/json''"
    by (simp_all add: examples statuses_empty_def get_type_def get_def before_semicolon_def)
  from body_null_json [OF h1 h2, of Null] h1 h2 show ?thesis by simp
qed

subsection \<open>A status that forbids a body\<close>

text \<open>
  C3 as stated fails for the empty string, a body that is not null and not truthy:
  the status 204 leaves the body and the headers alone.
\<close>

theorem empty_string_body_counterexample:
  "\<not> headersSent empty_text_response \<and> body empty_text_response = Str []
   \<and> body empty_text_response \<noteq> Null \<and> statuses_empty 204
   \<and> thrown (set_status empty_text_response (Finite 204)) = None
   \<and> body (state_of (set_status empty_text_response (Finite 204))) = Str []
   \<and> get (state_of (set_status empty_text_response (Finite 204))) ''Content-Type''
       = Some (Single ''text/plain; charset=utf-8'')"
proof -
  have h: "\<not> headersSent empty_text_response" by (simp add: examples)
  have b: "\<not> truthy (body empty_text_response)" by (simp add: examples)
  from set_status_accepted [OF h, of 204] b
  have "set_status empty_text_response (Finite 204) =
          Done (write_status empty_text_response 204)"
    by simp
  then show ?thesis
    using h by (simp add: get_def) (simp add: examples statuses_empty_def)
qed

text \<open>
  C3, amended. On a response whose headers have not been sent and whose body is
  truthy, assigning a status that forbids a body clears the body to null and removes
  the headers Content-Type, Content-Length and Transfer-Encoding.
\<close>

theorem empty_status_clears_body:
  assumes "\<not> headersSent r" and "truthy (body r)"
    and "Number_isInteger code" and "statuses_empty (integer_of code)"
  shows "thrown (set_status r code) = None
       \<and> statusCode (state_of (set_status r code)) = integer_of code
       \<and> body (state_of (set_status r code)) = Null
       \<and> get (state_of (set_status r code)) ''Content-Type'' = None
       \<and> get (state_of (set_status r code)) ''Content-Length'' = None
       \<and> get (state_of (set_status r code)) ''Transfer-Encoding'' = None"
proof -
  let ?i = "integer_of code"
  from empty_code_cases [OF assms(3,4)]
  have c: "code = Finite (of_int ?i)" and lo: "100 \<le> ?i" and hi: "?i \<le> 999" by simp_all
  have "set_status r (Finite (of_int ?i)) =
          Done (no_content ((write_status r ?i)\<lparr>body := Null\<rparr>) Null)"
    using assms(1,2,4) lo hi by (simp add: set_status_accepted)
  with c have "set_status r code = Done (no_content ((write_status r ?i)\<lparr>body := Null\<rparr>) Null)"
    by simp
  then show ?thesis
    using assms(1) by (simp add: no_content_headers)
qed

theorem empty_status_clears_body_witness:
  "\<not> headersSent text_response \<and> truthy (body text_response)
   \<and> Number_isInteger (Finite 204) \<and> statuses_empty (integer_of (Finite 204))
   \<and> thrown (set_status text_response (Finite 204)) = None
   \<and> statusCode (state_of (set_status text_response (Finite 204))) = 204
   \<and> body (state_of (set_status text_response (Finite 204))) = Null
   \<and> get (state_of (set_status text_response (Finite 204))) ''Content-Type'' = None
   \<and> get (state_of (set_status text_response (Finite 204))) ''Content-Length'' = None
   \<and> get (state_of (set_status text_response (Finite 204))) ''Transfer-Encoding'' = None"
proof -
  have h1: "\<not> headersSent text_response" and h2: "truthy (body text_response)"
    by (simp_all add: examples)
  have h3: "Number_isInteger (Finite 204)" and h4: "statuses_empty (integer_of (Finite 204))"
    by (simp_all add: statuses_empty_def)
  from empty_status_clears_body [OF h1 h2 h3 h4] h1 h2 h3 h4 show ?thesis by simp
qed

subsection \<open>After the headers are sent\<close>

text \<open>
  C4. Once the headers are sent, \<open>set\<close> (in both forms), \<open>remove\<close>, \<open>vary\<close> and an
  assignment to \<open>status\<close> return without an error and leave the response as it was,
  whatever their arguments.
\<close>

theorem sent_frozen:
  assumes "headersSent r"
  shows "set_header r field val = r \<and> set_fields r obj = r \<and> remove r field = r
       \<and> vary vary_pkg r field = Done r \<and> set_status r code = Done r"
  using assms by (simp add: set_header_def set_fields_def remove_def vary_def set_status_sent)

theorem sent_frozen_witness:
  "headersSent sent_response
   \<and> set_header sent_response ''Content-Type'' (One (Text ''text/html'')) = sent_response
   \<and> set_fields sent_response [(''ETag'', One (Text ''x''))] = sent_response
   \<and> remove sent_response ''Content-Type'' = sent_response
   \<and> vary (\<lambda>h f. Inl (TypeError ''field argument is required'')) sent_response [] = Done sent_response
   \<and> set_status sent_response (Finite 1000) = Done sent_response"
proof -
  have h: "headersSent sent_response" by (simp add: examples)
  from sent_frozen [OF h] h show ?thesis by simp
qed

subsection \<open>Validation of the status\<close>

text \<open>
  C5 as stated fails once the headers are sent: 404 is not taken, and neither 1000 nor
  NaN raises an error.
\<close>

theorem status_sent_counterexample:
  "headersSent sent_response \<and> statusCode sent_response = 200
   \<and> set_status sent_response (Finite 404) = Done sent_response
   \<and> set_status sent_response (Finite 1000) = Done sent_response
   \<and> set_status sent_response NaN = Done sent_response"
proof -
  have h: "headersSent sent_response" and s: "statusCode sent_response = 200"
    by (simp_all add: examples)
  show ?thesis using h s by (simp add: set_status_sent)
qed

text \<open>
  C5, amended. On a response whose headers have not been sent, every integer from 100
  to 999 is accepted and becomes the status; every number that is not such an integer
  makes the assignment throw an AssertionError and leaves the response as it was.
\<close>

theorem status_validated:
  assumes "\<not> headersSent r"
  shows "(100 \<le> i \<and> i \<le> 999 \<longrightarrow>
            thrown (set_status r (Finite (of_int i))) = None
          \<and> statusCode (state_of (set_status r (Finite (of_int i)))) = i)
       \<and> ((\<nexists>j. c = Finite (of_int j) \<and> 100 \<le> j \<and> j \<le> 999) \<longrightarrow>
            (\<exists>msg. set_status r c = Raised (AssertionError msg) r))"
proof (intro conjI impI)
  assume "100 \<le> i \<and> i \<le> 999"
  then have "set_status r (Finite (of_int i)) =
           Done (if truthy (body r) \<and> statuses_empty i
                 then no_content ((write_status r i)\<lparr>body := Null\<rparr>) Null
                 else write_status r i)"
    using assms by (simp add: set_status_accepted)
  then show "thrown (set_status r (Finite (of_int i))) = None"
    and "statusCode (state_of (set_status r (Finite (of_int i)))) = i"
    by simp_all
next
  assume "\<nexists>j. c = Finite (of_int j) \<and> 100 \<le> j \<and> j \<le> 999"
  then have "\<not> (Number_isInteger c \<and> in_status_range c)"
    using integer_status [of c] by blast
  then show "\<exists>msg. set_status r c = Raised (AssertionError msg) r"
    using assms by (rule set_status_rejected [rotated])
qed

theorem status_validated_witness:
  "\<not> headersSent text_response \<and> (100::int) \<le> 404 \<and> (404::int) \<le> 999
   \<and> thrown (set_status text_response (Finite 404)) = None
   \<and> statusCode (state_of (set_status text_response (Finite 404))) = 404
   \<and> (\<exists>msg. set_status text_response (Finite 1000) = Raised (AssertionError msg) text_response)
   \<and> (\<exists>msg. set_status text_response (Finite (401 / 2)) = Raised (AssertionError msg) text_response)
   \<and> (\<exists>msg. set_status text_response NaN = Raised (AssertionError msg) text_response)"
proof -
  have h: "\<not> headersSent text_response" by (simp add: examples)
  from status_validated [OF h, of 404 "Finite 1000"]
    status_validated [OF h, of 404 "Finite (401 / 2)"]
    status_validated [OF h, of 404 NaN] half_not_integer h
  show ?thesis by simp
qed

subsection \<open>Content-Type of a body\<close>

text \<open>
  C6 as stated fails for an object: the Content-Type \<open>application/xml\<close> that the
  caller had set is overwritten with the JSON type.
\<close>

theorem json_overrides_type_counterexample:
  "get xml_response ''Content-Type'' = Some (Single ''application/xml'')
   \<and> thrown (set_body xml_response (Object 0)) = None
   \<and> get (state_of (set_body xml_response (Object 0))) ''Content-Type''
       = Some (Single ''application/json; charset=utf-8'')"
proof -
  have h: "\<not> headersSent xml_response"
    "get xml_response ''Content-Type'' = Some (Single ''application/xml'')"
    by (simp_all add: examples get_def)
  from set_body_json [of "Object 0" 0 _ _ xml_response] h
  show ?thesis by (simp add: set_body_not_thrown)
qed

text \<open>
  C6, amended. A string, a buffer or a stream assigned as body leaves a Content-Type
  header that is present unchanged, and on a response without one whose headers have
  not been sent it sets the fallback type: HTML or plain text for a string,
  \<open>application/octet-stream\<close> for a buffer or a stream. Any other body that is not
  null sets the Content-Type to the JSON type on a response whose headers have not
  been sent, whether or not one was present.
\<close>

theorem body_type_fallback:
  "(val = Str s \<or> val = Buffer b \<or> val = Stream i \<longrightarrow>
      thrown (set_body r val) = None
    \<and> (has r ''Content-Type'' \<longrightarrow>
         get (state_of (set_body r val)) ''Content-Type'' = get r ''Content-Type'')
    \<and> (\<not> has r ''Content-Type'' \<and> \<not> headersSent r \<longrightarrow>
         get (state_of (set_body r val)) ''Content-Type'' =
           Some (Single (case val of
                           Str s \<Rightarrow> if starts_with_tag s then ''text/html; charset=utf-8''
                                    else ''text/plain; charset=utf-8''
                         | _ \<Rightarrow> ''application/octet-stream''))))
 \<and> (val = Object k \<or> val = Boolean bb \<or> val = Number n \<longrightarrow>
      thrown (set_body r val) = None
    \<and> (\<not> headersSent r \<longrightarrow>
         get (state_of (set_body r val)) ''Content-Type'' =
           Some (Single ''application/json; charset=utf-8'')))"
proof (intro conjI impI)
  assume v: "val = Str s \<or> val = Buffer b \<or> val = Stream i"
  then show "thrown (set_body r val) = None" by (auto simp add: set_body_not_thrown)
  show "get (state_of (set_body r val)) ''Content-Type'' = get r ''Content-Type''"
    if "has r ''Content-Type''"
    using v that by (rule set_body_keeps_type)
  show "get (state_of (set_body r val)) ''Content-Type'' =
           Some (Single (case val of
                           Str s \<Rightarrow> if starts_with_tag s then ''text/html; charset=utf-8''
                                    else ''text/plain; charset=utf-8''
                         | _ \<Rightarrow> ''application/octet-stream''))"
    if "\<not> has r ''Content-Type'' \<and> \<not> headersSent r"
    using v that by (simp add: set_body_fallback)
next
  assume v: "val = Object k \<or> val = Boolean bb \<or> val = Number n"
  then show "thrown (set_body r val) = None" by (auto simp add: set_body_not_thrown)
  show "get (state_of (set_body r val)) ''Content-Type'' =
           Some (Single ''application/json; charset=utf-8'')"
    if "\<not> headersSent r"
    using v that by (rule set_body_json)
qed

theorem body_type_fallback_witness:
  "\<not> has blank ''Content-Type'' \<and> \<not> headersSent blank \<and> has xml_response ''Content-Type''
   \<and> thrown (set_body blank (Str ''<p>'')) = None
   \<and> get (state_of (set_body blank (Str ''<p>''))) ''Content-Type''
       = Some (Single ''text/html; charset=utf-8'')
   \<and> get (state_of (set_body xml_response (Buffer []))) ''Content-Type''
       = Some (Single ''application/xml'')
   \<and> get (state_of (set_body blank (Object 0))) ''Content-Type''
       = Some (Single ''application/json; charset=utf-8'')"
proof -
  have h: "\<not> has blank ''Content-Type''" "\<not> headersSent blank" "has xml_response ''Content-Type''"
    "get xml_response ''Content-Type'' = Some (Single ''application/xml'')"
    by (simp_all add: examples has_def get_def)
  have t: "starts_with_tag ''<p>''" by (simp add: starts_with_tag_def ascii_space_def)
  from body_type_fallback [where val = "Str ''<p>''" and s = "''<p>''" and r = blank]
    body_type_fallback [where val = "Buffer []" and b = "[]" and r = xml_response]
    body_type_fallback [where val = "Object 0" and k = 0 and r = blank] h t
  show ?thesis by simp
qed

subsection \<open>String bodies\<close>

text \<open>
  C7 as stated fails on a response whose headers are sent, where no Content-Type
  appears, and on one with a Transfer-Encoding header and a Content-Length of 5, where
  the length stays 5 for a string of two bytes.
\<close>

theorem string_body_counterexample:
  "\<not> has sent_blank ''Content-Type''
   \<and> thrown (set_body sent_blank (Str ''hi'')) = None
   \<and> get (state_of (set_body sent_blank (Str ''hi''))) ''Content-Type'' = None
   \<and> \<not> headersSent chunked_stale_response \<and> \<not> has chunked_stale_response ''Content-Type''
   \<and> get_length (\<lambda>v. []) (state_of (set_body chunked_stale_response (Str ''hi''))) = Some 5
   \<and> Buffer_byteLength ''hi'' = 2"
proof -
  have h: "headersSent sent_blank" "res_headers sent_blank = Map.empty"
    by (simp_all add: examples)
  from set_body_sent [of sent_blank "Str ''hi''"] h
  have a: "res_headers (state_of (set_body sent_blank (Str ''hi''))) = Map.empty" by simp
  have c: "has chunked_stale_response ''Transfer-Encoding''"
    "get chunked_stale_response ''Content-Length'' = Some (Single ''5'')"
    "\<not> headersSent chunked_stale_response" "\<not> has chunked_stale_response ''Content-Type''"
    by (simp_all add: examples has_def get_def)
  from set_body_length_kept [of "Str ''hi''" "''hi''" _ chunked_stale_response] c
  have "get (state_of (set_body chunked_stale_response (Str ''hi''))) ''Content-Length''
          = Some (Single ''5'')"
    by simp
  then have b: "get_length (\<lambda>v. []) (state_of (set_body chunked_stale_response (Str ''hi''))) = Some 5"
    by (simp add: get_length_def has_def get_def parseInt_def parse_digits_def is_digit_def
        digit_value_def digits_value_def ascii_space_def)
  from a b c h show ?thesis
    by (simp add: set_body_not_thrown has_def get_def Buffer_byteLength_def)
qed

text \<open>
  C7, amended. On a response whose headers have not been sent and that has no
  Content-Type, a string assigned as body gets an HTML type when it starts with
  \<open><\<close> after leading white space and a plain text type otherwise; when the response
  has no Transfer-Encoding either, its length is then the byte length of the string.
\<close>

theorem string_body_type_and_length:
  assumes "\<not> headersSent r" and "\<not> has r ''Content-Type''"
  shows "thrown (set_body r (Str s)) = None
       \<and> get (state_of (set_body r (Str s))) ''Content-Type'' =
           Some (Single (if starts_with_tag s then ''text/html; charset=utf-8''
                         else ''text/plain; charset=utf-8''))
       \<and> get_type (state_of (set_body r (Str s))) =
           Inr (if starts_with_tag s then ''text/html'' else ''text/plain'')
       \<and> (\<not> has r ''Transfer-Encoding'' \<longrightarrow>
            get_length JSON_stringify (state_of (set_body r (Str s)))
              = Some (int (Buffer_byteLength s)))"
proof -
  have ct: "get (state_of (set_body r (Str s))) ''Content-Type'' =
           Some (Single (if starts_with_tag s then ''text/html; charset=utf-8''
                         else ''text/plain; charset=utf-8''))"
    using set_body_fallback [of "Str s" s _ _ r] assms by simp
  then have ty: "get_type (state_of (set_body r (Str s))) =
           Inr (if starts_with_tag s then ''text/html'' else ''text/plain'')"
    by (simp add: get_type_def before_semicolon_def)
  have len: "get_length JSON_stringify (state_of (set_body r (Str s)))
              = Some (int (Buffer_byteLength s))" if "\<not> has r ''Transfer-Encoding''"
    using set_body_string_length [OF assms(1) that] by (rule get_length_header)
  from ct ty len show ?thesis by (simp add: set_body_not_thrown)
qed

theorem string_body_type_and_length_witness:
  "\<not> headersSent blank \<and> \<not> has blank ''Content-Type'' \<and> \<not> has blank ''Transfer-Encoding''
   \<and> get (state_of (set_body blank (Str ''  <p>''))) ''Content-Type''
       = Some (Single ''text/html; charset=utf-8'')
   \<and> get_length (\<lambda>v. []) (state_of (set_body blank (Str ''  <p>''))) = Some 5
   \<and> get_type (state_of (set_body blank (Str ''hi''))) = Inr ''text/plain''
   \<and> get_length (\<lambda>v. []) (state_of (set_body blank (Str ''hi''))) = Some 2"
proof -
  have h1: "\<not> headersSent blank" and h2: "\<not> has blank ''Content-Type''"
    and h3: "\<not> has blank ''Transfer-Encoding''"
    by (simp_all add: examples has_def)
  have t: "starts_with_tag ''  <p>''" "\<not> starts_with_tag ''hi''"
    by (simp_all add: starts_with_tag_def ascii_space_def)
  from string_body_type_and_length [OF h1 h2, of "''  <p>''" "\<lambda>v. []"]
    string_body_type_and_length [OF h1 h2, of "''hi''" "\<lambda>v. []"] h1 h2 h3 t
  show ?thesis by (simp add: Buffer_byteLength_def)
qed

subsection \<open>Redirect\<close>

text \<open>
  C8. What the code does where the claim promises a Location, the status 302 and a
  body: every call of \<open>redirect\<close> throws a ReferenceError for the unbound name
  \<open>encodeUrl\<close> and leaves the response as it was, whatever \<open>escape\<close> and the
  negotiator are; after \<open>redirect("back", "/fallback")\<close> on the response that the
  transport hands over there is no Location, the status is 200 and there is no body.
\<close>

theorem redirect_throws:
  "redirect escape accepts r url alt = Raised (ReferenceError ''encodeUrl is not defined'') r
   \<and> thrown (redirect escape accepts blank ''back'' (Some ''/fallback''))
       = Some (ReferenceError ''encodeUrl is not defined'')
   \<and> get (state_of (redirect escape accepts blank ''back'' (Some ''/fallback''))) ''Location''
       = None
   \<and> statusCode (state_of (redirect escape accepts blank ''back'' (Some ''/fallback''))) = 200
   \<and> body (state_of (redirect escape accepts blank ''back'' (Some ''/fallback''))) = Undefined"
proof -
  have "redirect escape accepts r url alt
          = Raised (ReferenceError ''encodeUrl is not defined'') r" for r url alt
    by (simp add: redirect_def encodeUrl_def Let_def)
  then show ?thesis by (simp add: get_def) (simp add: examples)
qed

subsection \<open>The memoized URL\<close>

text \<open>
  C9. Reading \<open>URL\<close> never throws. The first read stores what \<open>new URL\<close> makes of
  origin and originalUrl, or the empty object when origin or the constructor throws;
  every later read returns the stored object, whatever the constructor would do.
\<close>

theorem URL_memoized:
  "\<exists>u rq'. get_URL new_URL rq = Inr (u, rq')
      \<and> memoizedURL rq' = Some u
      \<and> (\<forall>other_URL. get_URL other_URL rq' = Inr (u, rq'))
      \<and> (memoizedURL rq = None \<longrightarrow>
           u = (case origin rq of
                  Inl e \<Rightarrow> Empty_object
                | Inr base \<Rightarrow>
                    (case new_URL (base @ originalUrl rq) of
                       None \<Rightarrow> Empty_object
                     | Some parsed \<Rightarrow> Parsed parsed)))
      \<and> (memoizedURL rq \<noteq> None \<longrightarrow> memoizedURL rq = Some u \<and> rq' = rq)"
proof (cases "memoizedURL rq")
  case None
  then show ?thesis
    by (auto simp add: get_URL_def Let_def try_catch_def split: sum.splits option.splits)
next
  case (Some v)
  then show ?thesis
    by (simp add: get_URL_def)
qed

theorem URL_memoized_witness:
  "memoizedURL hostless_request = None
   \<and> get_URL only_with_host hostless_request
       = Inr (Empty_object, hostless_request\<lparr>memoizedURL := Some Empty_object\<rparr>)
   \<and> get_URL Some (hostless_request\<lparr>memoizedURL := Some Empty_object\<rparr>)
       = Inr (Empty_object, hostless_request\<lparr>memoizedURL := Some Empty_object\<rparr>)
   \<and> get_URL only_with_host plain_request
       = Inr (Parsed ''http://example.com/a'',
              plain_request\<lparr>memoizedURL := Some (Parsed ''http://example.com/a'')\<rparr>)
   \<and> get_URL Some socketless_request
       = Inr (Empty_object, socketless_request\<lparr>memoizedURL := Some Empty_object\<rparr>)"
proof -
  have m: "memoizedURL hostless_request = None" "memoizedURL plain_request = None"
    "memoizedURL socketless_request = None"
    by (simp_all add: examples)
  have o: "origin hostless_request = Inr ''http://''" "originalUrl hostless_request = ''/a''"
    "origin plain_request = Inr ''http://example.com''" "originalUrl plain_request = ''/a''"
    "origin socketless_request = Inl (TypeError ''cannot read encrypted'')"
    by (simp_all add: examples origin_def protocol_def host_def
        request_get_def Let_def toLowerCase_def toLowerChar_def ascii_space_def)
  have e: "get_URL only_with_host hostless_request
       = Inr (Empty_object, hostless_request\<lparr>memoizedURL := Some Empty_object\<rparr>)"
    "get_URL only_with_host plain_request
       = Inr (Parsed ''http://example.com/a'',
              plain_request\<lparr>memoizedURL := Some (Parsed ''http://example.com/a'')\<rparr>)"
    "get_URL Some socketless_request
       = Inr (Empty_object, socketless_request\<lparr>memoizedURL := Some Empty_object\<rparr>)"
    using m o by (simp_all add: get_URL_def Let_def try_catch_def only_with_host_def)
  from URL_memoized [of only_with_host hostless_request] e(1)
  have "get_URL Some (hostless_request\<lparr>memoizedURL := Some Empty_object\<rparr>)
       = Inr (Empty_object, hostless_request\<lparr>memoizedURL := Some Empty_object\<rparr>)"
    by auto
  with m e show ?thesis by simp
qed

subsection \<open>Length under Transfer-Encoding\<close>

text \<open>
  C10. On a response with a Transfer-Encoding header an assignment to \<open>length\<close>
  changes nothing, and a string or a buffer assigned as body leaves the
  Content-Length header as it was: absent when it was absent.
\<close>

theorem length_ignored_when_chunked:
  assumes "has r ''Transfer-Encoding''"
  shows "set_length r n = r
       \<and> (val = Str s \<or> val = Buffer b \<longrightarrow>
            thrown (set_body r val) = None
          \<and> get (state_of (set_body r val)) ''Content-Length'' = get r ''Content-Length''
          \<and> has (state_of (set_body r val)) ''Content-Length'' = has r ''Content-Length'')"
proof (intro conjI impI)
  show "set_length r n = r" using assms by (simp add: set_length_def)
next
  assume v: "val = Str s \<or> val = Buffer b"
  then show "thrown (set_body r val) = None" by (auto simp add: set_body_not_thrown)
  from v assms
  show g: "get (state_of (set_body r val)) ''Content-Length'' = get r ''Content-Length''"
    by (rule set_body_length_kept)
  then show "has (state_of (set_body r val)) ''Content-Length'' = has r ''Content-Length''"
    by (simp add: has_def get_def)
qed

theorem length_ignored_when_chunked_witness:
  "has chunked_response ''Transfer-Encoding''
   \<and> set_length chunked_response 11 = chunked_response
   \<and> thrown (set_body chunked_response (Str ''hello world'')) = None
   \<and> get (state_of (set_body chunked_response (Str ''hello world''))) ''Content-Length'' = None
   \<and> \<not> has (state_of (set_body chunked_response (Buffer [1, 2, 3]))) ''Content-Length''"
proof -
  have h: "has chunked_response ''Transfer-Encoding''"
    and g: "get chunked_response ''Content-Length'' = None"
      "\<not> has chunked_response ''Content-Length''"
    by (simp_all add: examples has_def get_def)
  from length_ignored_when_chunked [OF h, of 11 "Str ''hello world''" "''hello world''"]
    length_ignored_when_chunked [OF h, of 11 "Buffer [1, 2, 3]" _ "[1, 2, 3]"] h g
  show ?thesis by simp
qed

end
